theory Spec2Isabelle
  imports Main "HOL-Library.Word"
begin

section \<open>The cache of \<^verbatim>\<open>minicache.go\<close>\<close>

text \<open>
  Go's \<^verbatim>\<open>int64\<close> and \<^verbatim>\<open>time.Duration\<close> (an \<^verbatim>\<open>int64\<close> count of nanoseconds) are
  64-bit words: \<open>+\<close> wraps, and the comparisons of the source are the signed ones,
  \<open><s\<close> and \<open>\<le>s\<close>. The stored payload \<^verbatim>\<open>interface{}\<close> is a type variable.
\<close>

type_synonym int64 = "64 word"
type_synonym Duration = "64 word"

definition NoExpiration :: Duration where
  "NoExpiration = - 1"

text \<open>The package constant \<^verbatim>\<open>defaultExpiration\<close> (the struct field has the same name).\<close>

definition defaultExpiration_const :: Duration where
  "defaultExpiration_const = 0"

record 'v Item =
  Object :: 'v
  Expiration :: int64

text \<open>
  The struct \<^verbatim>\<open>Minicache\<close>. The mutex and the stop channel carry no data; the locking
  protocol of the methods is modelled on its own in the last section.
\<close>

record 'v Minicache =
  defaultExpiration :: Duration
  items :: "string \<rightharpoonup> 'v Item"
  gcInterval :: Duration

text \<open>
  Every call of \<^verbatim>\<open>time.Now().UnixNano()\<close> is a parameter \<open>now\<close> of the function that
  makes it, so that two calls in one operation may read two different times.
\<close>

definition IsExpired :: "int64 \<Rightarrow> 'v Item \<Rightarrow> bool" where
  "IsExpired now item = (if Expiration item = 0 then False else Expiration item <s now)"

definition delete :: "string \<Rightarrow> 'v Minicache \<Rightarrow> 'v Minicache" where
  "delete k minic = minic\<lparr>items := (items minic)(k := None)\<rparr>"

definition Delete :: "string \<Rightarrow> 'v Minicache \<Rightarrow> 'v Minicache" where
  "Delete k minic = delete k minic"

text \<open>
  The sweep. \<^verbatim>\<open>for k, v := range minic.items\<close> visits the keys of the map in an order
  Go leaves open: \<open>ks\<close> is the order of one run, any list of the keys of the map.
\<close>

fun DeleteExpired_range :: "int64 \<Rightarrow> string list \<Rightarrow> 'v Minicache \<Rightarrow> 'v Minicache" where
  "DeleteExpired_range now [] minic = minic"
| "DeleteExpired_range now (k # ks) minic =
     (case items minic k of
        None \<Rightarrow> DeleteExpired_range now ks minic
      | Some v \<Rightarrow>
          if 0 <s Expiration v \<and> Expiration v <s now
          then DeleteExpired_range now ks (delete k minic)
          else DeleteExpired_range now ks minic)"

definition DeleteExpired :: "int64 \<Rightarrow> string list \<Rightarrow> 'v Minicache \<Rightarrow> 'v Minicache" where
  "DeleteExpired now ks minic = DeleteExpired_range now ks minic"

text \<open>
  In \<^verbatim>\<open>Set\<close> and \<^verbatim>\<open>set\<close>, \<^verbatim>\<open>time.Now().Add(d).UnixNano()\<close> is the instant \<open>d\<close>
  nanoseconds after \<open>now\<close> read as an \<^verbatim>\<open>int64\<close> of nanoseconds: the wrapping sum
  \<open>now + d\<close>.
\<close>

definition Set :: "int64 \<Rightarrow> string \<Rightarrow> 'v \<Rightarrow> Duration \<Rightarrow> 'v Minicache \<Rightarrow> 'v Minicache" where
  "Set now k v d minic =
     (let d1 = (if d = defaultExpiration_const then defaultExpiration minic else d);
          e = (if 0 <s d1 then now + d1 else 0)
      in minic\<lparr>items := (items minic)(k \<mapsto> \<lparr>Object = v, Expiration = e\<rparr>)\<rparr>)"

text \<open>The lock-free \<^verbatim>\<open>set\<close> that \<^verbatim>\<open>Add\<close> and \<^verbatim>\<open>Replace\<close> call.\<close>

definition set_item :: "int64 \<Rightarrow> string \<Rightarrow> 'v \<Rightarrow> Duration \<Rightarrow> 'v Minicache \<Rightarrow> 'v Minicache" where
  "set_item now k v d minic =
     (let d1 = (if d = defaultExpiration_const then defaultExpiration minic else d);
          e = (if 0 <s d1 then now + d1 else 0)
      in minic\<lparr>items := (items minic)(k \<mapsto> \<lparr>Object = v, Expiration = e\<rparr>)\<rparr>)"

text \<open>\<^verbatim>\<open>(nil, false)\<close> is \<open>None\<close>, \<^verbatim>\<open>(item.Object, true)\<close> is \<open>Some\<close>.\<close>

definition get :: "int64 \<Rightarrow> string \<Rightarrow> 'v Minicache \<Rightarrow> 'v option" where
  "get now k minic =
     (case items minic k of
        None \<Rightarrow> None
      | Some item \<Rightarrow> if IsExpired now item then None else Some (Object item))"

definition Get :: "int64 \<Rightarrow> string \<Rightarrow> 'v Minicache \<Rightarrow> 'v option" where
  "Get now k minic =
     (case items minic k of
        None \<Rightarrow> None
      | Some item \<Rightarrow> if IsExpired now item then None else Some (Object item))"

text \<open>
  The errors the methods return: the two \<^verbatim>\<open>fmt.Errorf\<close> messages, which name the key,
  and the error of the decoder, with its message.
\<close>

datatype error = AlreadyExists string | DoesNotExist string | DecodeError string

text \<open>
  \<^verbatim>\<open>Add\<close> and \<^verbatim>\<open>Replace\<close> return the error (\<open>None\<close> is \<^verbatim>\<open>nil\<close>) and leave the cache
  in the second component. \<open>now_get\<close> is the time \<^verbatim>\<open>get\<close> reads, \<open>now_set\<close> the one
  \<^verbatim>\<open>set\<close> reads.
\<close>

definition Add ::
  "int64 \<Rightarrow> int64 \<Rightarrow> string \<Rightarrow> 'v \<Rightarrow> Duration \<Rightarrow> 'v Minicache \<Rightarrow> error option \<times> 'v Minicache" where
  "Add now_get now_set k v d minic =
     (case get now_get k minic of
        Some _ \<Rightarrow> (Some (AlreadyExists k), minic)
      | None \<Rightarrow> (None, set_item now_set k v d minic))"

definition Replace ::
  "int64 \<Rightarrow> int64 \<Rightarrow> string \<Rightarrow> 'v \<Rightarrow> Duration \<Rightarrow> 'v Minicache \<Rightarrow> error option \<times> 'v Minicache" where
  "Replace now_get now_set k v d minic =
     (case get now_get k minic of
        None \<Rightarrow> (Some (DoesNotExist k), minic)
      | Some _ \<Rightarrow> (None, set_item now_set k v d minic))"

text \<open>
  \<^verbatim>\<open>Load\<close>. The gob decoder is not part of the repository: \<open>dec\<close> stands for
  \<^verbatim>\<open>gob.NewDecoder(r).Decode(&items)\<close>, giving an error or the decoded map. The decoded
  map is listed in the order \<^verbatim>\<open>range\<close> visits it, so its keys are pairwise distinct.
  \<open>clock k\<close> is the time \<^verbatim>\<open>obj.IsExpired()\<close> reads while key \<open>k\<close> is visited.
\<close>

fun Load_range ::
  "(string \<Rightarrow> int64) \<Rightarrow> (string \<times> 'v Item) list \<Rightarrow> 'v Minicache \<Rightarrow> 'v Minicache" where
  "Load_range clock [] minic = minic"
| "Load_range clock ((k, v) # kvs) minic =
     (case items minic k of
        None \<Rightarrow> Load_range clock kvs (minic\<lparr>items := (items minic)(k \<mapsto> v)\<rparr>)
      | Some obj \<Rightarrow>
          if IsExpired (clock k) obj
          then Load_range clock kvs (minic\<lparr>items := (items minic)(k \<mapsto> v)\<rparr>)
          else Load_range clock kvs minic)"

definition Load ::
  "('r \<Rightarrow> string + (string \<times> 'v Item) list) \<Rightarrow> (string \<Rightarrow> int64) \<Rightarrow> 'r \<Rightarrow> 'v Minicache
     \<Rightarrow> error option \<times> 'v Minicache" where
  "Load dec clock r minic =
     (case dec r of
        Inl err \<Rightarrow> (Some (DecodeError err), minic)
      | Inr decoded \<Rightarrow> (None, Load_range clock decoded minic))"

definition Flush :: "'v Minicache \<Rightarrow> 'v Minicache" where
  "Flush minic = minic\<lparr>items := Map.empty\<rparr>"

definition NewMiniCache :: "Duration \<Rightarrow> Duration \<Rightarrow> 'v Minicache" where
  "NewMiniCache dflt interval =
     \<lparr>defaultExpiration = dflt, items = Map.empty, gcInterval = interval\<rparr>"

text \<open>
  A key is live in the cache when the map holds an entry for it that \<^verbatim>\<open>IsExpired\<close> does
  not report as expired: the test \<^verbatim>\<open>!found || item.IsExpired()\<close> of \<^verbatim>\<open>get\<close>, \<^verbatim>\<open>Get\<close>
  and \<^verbatim>\<open>Load\<close>, negated.
\<close>

definition live :: "int64 \<Rightarrow> string \<Rightarrow> 'v Minicache \<Rightarrow> bool" where
  "live now k minic =
     (case items minic k of None \<Rightarrow> False | Some item \<Rightarrow> \<not> IsExpired now item)"

section \<open>The reaper goroutine\<close>






section \<open>The locking protocol\<close>

text \<open>
  What an operation does to the mutex \<^verbatim>\<open>rwmtx\<close> and to the field \<^verbatim>\<open>items\<close>, in program
  order, a deferred unlock at the end. A loop that reads or writes \<^verbatim>\<open>items\<close> at every
  turn is listed with one read and one write.
\<close>

datatype action = Lock | Unlock | RLock | RUnlock | ReadItems | WriteItems

datatype operation =
  M_Get | M_Set | M_Add | M_Replace | M_Delete | M_Count | M_Flush | M_Save | M_Load
  | M_DeleteExpired

text \<open>The paths through each operation: one list of actions for each branch.\<close>

fun paths :: "operation \<Rightarrow> action list list" where
  "paths M_Get = [[RLock, ReadItems, RUnlock]]"
| "paths M_Set = [[Lock, WriteItems, Unlock]]"
| "paths M_Add = [[Lock, ReadItems, Unlock], [Lock, ReadItems, WriteItems, Unlock]]"
| "paths M_Replace = [[Lock, ReadItems, Unlock], [Lock, ReadItems, WriteItems, Unlock]]"
| "paths M_Delete = [[Lock, WriteItems, Unlock]]"
| "paths M_Count = [[Lock, ReadItems, Unlock]]"
| "paths M_Flush = [[RLock, WriteItems, RUnlock]]"
| "paths M_Save = [[Lock, ReadItems, Unlock]]"
| "paths M_Load = [[], [Lock, ReadItems, WriteItems, Unlock]]"
| "paths M_DeleteExpired = [[Lock, ReadItems, WriteItems, Unlock]]"

text \<open>How the running operation holds the mutex, and whether each of its writes is made
  while it holds it exclusively.\<close>

datatype held = Unheld | Shared | Exclusive

fun writes_exclusive :: "held \<Rightarrow> action list \<Rightarrow> bool" where
  "writes_exclusive h [] = True"
| "writes_exclusive h (Lock # as) = writes_exclusive Exclusive as"
| "writes_exclusive h (RLock # as) = writes_exclusive Shared as"
| "writes_exclusive h (Unlock # as) = writes_exclusive Unheld as"
| "writes_exclusive h (RUnlock # as) = writes_exclusive Unheld as"
| "writes_exclusive h (ReadItems # as) = writes_exclusive h as"
| "writes_exclusive h (WriteItems # as) = (h = Exclusive \<and> writes_exclusive h as)"

text \<open>
  \<^verbatim>\<open>sync.RWMutex\<close>: one writer or any number of readers. \<^verbatim>\<open>Lock\<close> waits until there
  is no writer and no reader, \<^verbatim>\<open>RLock\<close> until there is no writer; an access to
  \<^verbatim>\<open>items\<close> never waits.
\<close>

record rwmutex =
  writer :: bool
  readers :: nat

fun enabled :: "action \<Rightarrow> rwmutex \<Rightarrow> bool" where
  "enabled Lock mu = (\<not> writer mu \<and> readers mu = 0)"
| "enabled RLock mu = (\<not> writer mu)"
| "enabled a mu = True"

fun fire :: "action \<Rightarrow> rwmutex \<Rightarrow> rwmutex" where
  "fire Lock mu = mu\<lparr>writer := True\<rparr>"
| "fire Unlock mu = mu\<lparr>writer := False\<rparr>"
| "fire RLock mu = mu\<lparr>readers := Suc (readers mu)\<rparr>"
| "fire RUnlock mu = mu\<lparr>readers := readers mu - 1\<rparr>"
| "fire a mu = mu"

text \<open>
  Goroutines, each with the actions it still has to run, under a schedule: the list of
  the goroutines that take the next steps. \<open>None\<close>: the schedule picks a goroutine that
  has finished or has to wait.
\<close>

fun run :: "nat list \<Rightarrow> rwmutex \<times> action list list \<Rightarrow> (rwmutex \<times> action list list) option" where
  "run [] cfg = Some cfg"
| "run (i # sched) (mu, progs) =
     (if i < length progs then
        (case progs ! i of
           [] \<Rightarrow> None
         | a # rest \<Rightarrow>
             if enabled a mu then run sched (fire a mu, progs[i := rest]) else None)
      else None)"

text \<open>A data race: one goroutine is about to write \<^verbatim>\<open>items\<close> while another is about to
  read or write it.\<close>

definition next_is :: "action list \<Rightarrow> action list \<Rightarrow> bool" where
  "next_is as p = (case p of [] \<Rightarrow> False | a # rest \<Rightarrow> a \<in> set as)"

definition race :: "action list list \<Rightarrow> bool" where
  "race progs =
     (\<exists>i < length progs. \<exists>j < length progs.
        i \<noteq> j \<and> next_is [WriteItems] (progs ! i) \<and> next_is [ReadItems, WriteItems] (progs ! j))"

definition unlocked :: rwmutex where
  "unlocked = \<lparr>writer = False, readers = 0\<rparr>"

section \<open>Expiration\<close>

lemma negative_ttl: "d <s 0 \<Longrightarrow> d \<noteq> 0 \<and> \<not> 0 <s d"
  using signed.less_asym by auto

text \<open>Below \<open>2 ^ 63\<close> the sum of a time and a positive duration does not wrap.\<close>

lemma sint_no_wrap:
  fixes now d :: int64
  assumes "0 <s d" "sint now + sint d < 2 ^ 63"
  shows "sint (now + d) = sint now + sint d"
proof -
  have "0 < sint d" using assms(1) by (simp add: word_sless_alt)
  moreover have "- (2 ^ 63) \<le> sint now" using sint_ge [of now] by simp
  ultimately have "- (2 ^ 63) \<le> sint now + sint d" by linarith
  then show ?thesis using assms(2)
    by (simp add: sint_word_ariths signed_take_bit_int_eq_self)
qed

text \<open>
  C4. An entry whose expiration is the sentinel 0 ("never expire") is live at every time.
  An entry with any other expiration instant is live exactly while the current time is
  less than or equal to that instant, and expired strictly after it. \<^verbatim>\<open>Get\<close>, and the
  \<^verbatim>\<open>get\<close> that \<^verbatim>\<open>Add\<close> and \<^verbatim>\<open>Replace\<close> call, find a stored entry exactly when it is live.
\<close>

theorem C4_liveness:
  "(Expiration item = 0 \<longrightarrow> \<not> IsExpired now item) \<and>
   (Expiration item \<noteq> 0 \<longrightarrow> (\<not> IsExpired now item) = (now \<le>s Expiration item)) \<and>
   (Expiration item \<noteq> 0 \<longrightarrow> IsExpired now item = (Expiration item <s now)) \<and>
   (items minic k = Some item \<longrightarrow>
      (Get now k minic = Some (Object item)) = (Expiration item = 0 \<or> now \<le>s Expiration item) \<and>
      (Get now k minic = None) = (Expiration item \<noteq> 0 \<and> Expiration item <s now) \<and>
      (get now k minic = Some (Object item)) = (Expiration item = 0 \<or> now \<le>s Expiration item) \<and>
      (get now k minic = None) = (Expiration item \<noteq> 0 \<and> Expiration item <s now))"
  by (auto simp: IsExpired_def Get_def get_def signed.not_le signed.not_less)

theorem C4_liveness_witness:
  "\<not> IsExpired 10 \<lparr>Object = (), Expiration = 10\<rparr> \<and>
   IsExpired 11 \<lparr>Object = (), Expiration = 10\<rparr> \<and>
   \<not> IsExpired 11 \<lparr>Object = (), Expiration = 0\<rparr> \<and>
   Get 10 ''k'' (Set 3 ''k'' () 7 (NewMiniCache 0 1)) = Some () \<and>
   Get 11 ''k'' (Set 3 ''k'' () 7 (NewMiniCache 0 1)) = None"
  using C4_liveness [of "\<lparr>Object = (), Expiration = 10\<rparr>" 10 "Set 3 ''k'' () 7 (NewMiniCache 0 1)" "''k''"]
        C4_liveness [of "\<lparr>Object = (), Expiration = 10\<rparr>" 11 "Set 3 ''k'' () 7 (NewMiniCache 0 1)" "''k''"]
        C4_liveness [of "\<lparr>Object = (), Expiration = 0\<rparr>" 11 "NewMiniCache 0 1" "''k''"]
  by (simp add: Set_def NewMiniCache_def defaultExpiration_const_def word_sless_alt word_sle_eq)

section \<open>Set\<close>

lemma set_item_eq_Set: "set_item now k v d minic = Set now k v d minic"
  by (simp add: set_item_def Set_def)

lemma Set_items_other: "k' \<noteq> k \<Longrightarrow> items (Set now k v d minic) k' = items minic k'"
  by (simp add: Set_def Let_def)

lemma Set_fields:
  "defaultExpiration (Set now k v d minic) = defaultExpiration minic \<and>
   gcInterval (Set now k v d minic) = gcInterval minic"
  by (simp add: Set_def Let_def)

lemma Set_positive:
  "0 <s d \<Longrightarrow> items (Set now k v d minic) k = Some \<lparr>Object = v, Expiration = now + d\<rparr>"
  by (auto simp: Set_def Let_def defaultExpiration_const_def)

lemma Set_negative:
  "d <s 0 \<Longrightarrow> items (Set now k v d minic) k = Some \<lparr>Object = v, Expiration = 0\<rparr>"
  using negative_ttl [of d] by (simp add: Set_def Let_def defaultExpiration_const_def)

lemma Set_default: "Set now k v 0 minic = Set now k v (defaultExpiration minic) minic"
  by (simp add: Set_def Let_def defaultExpiration_const_def)

lemma Get_never:
  "items minic k = Some \<lparr>Object = v, Expiration = 0\<rparr> \<Longrightarrow> Get t k minic = Some v"
  by (simp add: Get_def IsExpired_def)

lemma Set_stores: "\<exists>e. items (Set now k v d minic) k = Some \<lparr>Object = v, Expiration = e\<rparr>"
  by (simp add: Set_def Let_def)

text \<open>
  C5, as the code has it. \<^verbatim>\<open>Set\<close> stores the value under the key whatever the map held
  there, and leaves every other key and the configuration alone. A positive ttl \<open>d\<close>
  whose sum with the time read stays below \<open>2 ^ 63\<close>, the range of \<^verbatim>\<open>int64\<close>, gives the
  expiration \<open>now + d\<close>. A ttl of zero is replaced by the configured default: \<^verbatim>\<open>Set\<close>
  does what it does for the default given as the ttl, so a positive default in that
  range gives \<open>now + default\<close>, and a default that is zero or negative gives the
  sentinel 0, "never". The marker \<^verbatim>\<open>NoExpiration\<close> gives the sentinel 0, and the entry is
  found at every time.
\<close>

theorem C5_Set:
  "(0 <s d \<and> sint now + sint d < 2 ^ 63 \<longrightarrow>
      (\<exists>e. items (Set now k v d minic) k = Some \<lparr>Object = v, Expiration = e\<rparr> \<and>
           sint e = sint now + sint d)) \<and>
   (d = 0 \<longrightarrow> Set now k v d minic = Set now k v (defaultExpiration minic) minic) \<and>
   (d = 0 \<and> 0 <s defaultExpiration minic \<and> sint now + sint (defaultExpiration minic) < 2 ^ 63 \<longrightarrow>
      (\<exists>e. items (Set now k v d minic) k = Some \<lparr>Object = v, Expiration = e\<rparr> \<and>
           sint e = sint now + sint (defaultExpiration minic))) \<and>
   (d = 0 \<and> defaultExpiration minic \<le>s 0 \<longrightarrow>
      items (Set now k v d minic) k = Some \<lparr>Object = v, Expiration = 0\<rparr> \<and>
      (\<forall>t. Get t k (Set now k v d minic) = Some v)) \<and>
   (d = NoExpiration \<longrightarrow>
      items (Set now k v d minic) k = Some \<lparr>Object = v, Expiration = 0\<rparr> \<and>
      (\<forall>t. Get t k (Set now k v d minic) = Some v)) \<and>
   (\<forall>k'. k' \<noteq> k \<longrightarrow> items (Set now k v d minic) k' = items minic k') \<and>
   (\<exists>e. items (Set now k v d minic) k = Some \<lparr>Object = v, Expiration = e\<rparr>) \<and>
   defaultExpiration (Set now k v d minic) = defaultExpiration minic \<and>
   gcInterval (Set now k v d minic) = gcInterval minic"
proof -
  have exact: "0 <s d \<and> sint now + sint d < 2 ^ 63 \<longrightarrow>
      (\<exists>e. items (Set now k v d minic) k = Some \<lparr>Object = v, Expiration = e\<rparr> \<and>
           sint e = sint now + sint d)"
    by (simp add: Set_positive sint_no_wrap)
  have dflt: "d = 0 \<longrightarrow> Set now k v d minic = Set now k v (defaultExpiration minic) minic"
    by (clarify, rule Set_default)
  have dflt_pos: "d = 0 \<and> 0 <s defaultExpiration minic
        \<and> sint now + sint (defaultExpiration minic) < 2 ^ 63 \<longrightarrow>
      (\<exists>e. items (Set now k v d minic) k = Some \<lparr>Object = v, Expiration = e\<rparr> \<and>
           sint e = sint now + sint (defaultExpiration minic))"
    by (auto simp: Set_def Let_def defaultExpiration_const_def sint_no_wrap)
  have dflt_stored: "d = 0 \<and> defaultExpiration minic \<le>s 0 \<longrightarrow>
      items (Set now k v d minic) k = Some \<lparr>Object = v, Expiration = 0\<rparr>"
    by (auto simp: Set_def Let_def defaultExpiration_const_def signed.not_less)
  then have dflt_never: "d = 0 \<and> defaultExpiration minic \<le>s 0 \<longrightarrow>
      items (Set now k v d minic) k = Some \<lparr>Object = v, Expiration = 0\<rparr> \<and>
      (\<forall>t. Get t k (Set now k v d minic) = Some v)"
    by (simp add: Get_never)
  have never: "d = NoExpiration \<longrightarrow>
      items (Set now k v d minic) k = Some \<lparr>Object = v, Expiration = 0\<rparr> \<and>
      (\<forall>t. Get t k (Set now k v d minic) = Some v)"
    by (simp add: NoExpiration_def Set_negative Get_never)
  have other: "\<forall>k'. k' \<noteq> k \<longrightarrow> items (Set now k v d minic) k' = items minic k'"
    by (simp add: Set_items_other)
  have stored: "\<exists>e. items (Set now k v d minic) k = Some \<lparr>Object = v, Expiration = e\<rparr>"
    by (simp add: Set_def Let_def)
  from exact dflt dflt_pos dflt_never never other stored Set_fields [of now k v d minic]
  show ?thesis by blast
qed

theorem C5_Set_witness:
  "items (Set 1000 ''k'' True 50 (NewMiniCache 0 1)) ''k''
     = Some \<lparr>Object = True, Expiration = 1050\<rparr> \<and>
   items (Set 1000 ''k'' True 0 (NewMiniCache 20 1)) ''k''
     = Some \<lparr>Object = True, Expiration = 1020\<rparr> \<and>
   items (Set 1000 ''k'' True 0 (NewMiniCache NoExpiration 1)) ''k''
     = Some \<lparr>Object = True, Expiration = 0\<rparr> \<and>
   items (Set 1000 ''k'' True NoExpiration (NewMiniCache 20 1)) ''k''
     = Some \<lparr>Object = True, Expiration = 0\<rparr> \<and>
   Get 999999 ''k'' (Set 1000 ''k'' True NoExpiration (NewMiniCache 20 1)) = Some True"
proof -
  have word_of: "e = w" if "sint e = sint w" for e w :: int64
    using that by (simp add: signed_word_eqI)
  have "items (Set 1000 ''k'' True 50 (NewMiniCache 0 1)) ''k''
     = Some \<lparr>Object = True, Expiration = 1050\<rparr>"
    using C5_Set [of 50 1000 "''k''" True "NewMiniCache 0 1"] word_of [of _ 1050]
    by (auto simp add: word_sless_alt)
  moreover have "items (Set 1000 ''k'' True 0 (NewMiniCache 20 1)) ''k''
     = Some \<lparr>Object = True, Expiration = 1020\<rparr>"
    using C5_Set [of 0 1000 "''k''" True "NewMiniCache 20 1"] word_of [of _ 1020]
    by (auto simp add: NewMiniCache_def word_sless_alt)
  moreover have "items (Set 1000 ''k'' True 0 (NewMiniCache NoExpiration 1)) ''k''
     = Some \<lparr>Object = True, Expiration = 0\<rparr>"
    using C5_Set [of 0 1000 "''k''" True "NewMiniCache NoExpiration 1"]
    by (auto simp add: NewMiniCache_def NoExpiration_def word_sle_eq)
  moreover have "items (Set 1000 ''k'' True NoExpiration (NewMiniCache 20 1)) ''k''
     = Some \<lparr>Object = True, Expiration = 0\<rparr> \<and>
   Get 999999 ''k'' (Set 1000 ''k'' True NoExpiration (NewMiniCache 20 1)) = Some True"
    using C5_Set [of NoExpiration 1000 "''k''" True "NewMiniCache 20 1"]
    by simp
  ultimately show ?thesis by simp
qed

text \<open>
  C5, as the claim states it, fails for a positive ttl that takes the sum out of the
  range of \<^verbatim>\<open>int64\<close>: at the time 1700000000000000000 and the largest ttl,
  9223372036854775807, \<^verbatim>\<open>Set\<close> stores a negative instant, which is not the time plus the
  ttl, and \<^verbatim>\<open>Get\<close> at that same time does not find the entry.
\<close>

theorem C5_Set_counterexample:
  "0 <s (9223372036854775807 :: Duration) \<and>
   items (Set 1700000000000000000 ''k'' True 9223372036854775807 (NewMiniCache 0 1)) ''k''
     = Some \<lparr>Object = True, Expiration = - 7523372036854775809\<rparr> \<and>
   sint (- 7523372036854775809 :: int64)
     \<noteq> sint (1700000000000000000 :: int64) + sint (9223372036854775807 :: Duration) \<and>
   Get 1700000000000000000 ''k''
     (Set 1700000000000000000 ''k'' True 9223372036854775807 (NewMiniCache 0 1)) = None"
  by (simp add: Set_def Get_def IsExpired_def NewMiniCache_def defaultExpiration_const_def
      word_sless_alt)

text \<open>
  C10. Every strictly negative ttl, not only \<^verbatim>\<open>NoExpiration\<close>, makes \<^verbatim>\<open>Set\<close>, and the
  \<^verbatim>\<open>set\<close> that \<^verbatim>\<open>Add\<close> and \<^verbatim>\<open>Replace\<close> share, store the sentinel 0: the entry is
  never expired and is found at every time.
\<close>

theorem C10_negative_ttl:
  "d <s 0 \<Longrightarrow>
     items (Set now k v d minic) k = Some \<lparr>Object = v, Expiration = 0\<rparr> \<and>
     items (set_item now k v d minic) k = Some \<lparr>Object = v, Expiration = 0\<rparr> \<and>
     (\<forall>t. \<not> IsExpired t \<lparr>Object = v, Expiration = 0\<rparr>) \<and>
     (\<forall>t. Get t k (Set now k v d minic) = Some v) \<and>
     (\<forall>t. get t k (set_item now k v d minic) = Some v)"
proof -
  assume neg: "d <s 0"
  have stored: "items (Set now k v d minic) k = Some \<lparr>Object = v, Expiration = 0\<rparr>"
    using neg by (rule Set_negative)
  moreover have "items (set_item now k v d minic) k = Some \<lparr>Object = v, Expiration = 0\<rparr>"
    using stored by (simp add: set_item_eq_Set)
  moreover have "\<forall>t. \<not> IsExpired t \<lparr>Object = v, Expiration = 0\<rparr>"
    by (simp add: IsExpired_def)
  moreover have "\<forall>t. Get t k (Set now k v d minic) = Some v"
    using stored by (simp add: Get_never)
  moreover have "\<forall>t. get t k (set_item now k v d minic) = Some v"
    using stored by (simp add: set_item_eq_Set get_def IsExpired_def)
  ultimately show ?thesis by blast
qed

theorem C10_negative_ttl_witness:
  "- 7 <s (0 :: Duration) \<and>
   items (Set 1000 ''k'' True (- 7) (NewMiniCache 20 1)) ''k''
     = Some \<lparr>Object = True, Expiration = 0\<rparr> \<and>
   Get 5000 ''k'' (Set 1000 ''k'' True (- 7) (NewMiniCache 20 1)) = Some True"
proof -
  have neg: "- 7 <s (0 :: Duration)" by (simp add: word_sless_alt)
  show ?thesis
    using neg C10_negative_ttl [OF neg, of 1000 "''k''" True "NewMiniCache 20 1"] by simp
qed

section \<open>Add and Replace\<close>

lemma get_None_iff: "get now k minic = None \<longleftrightarrow> \<not> live now k minic"
  by (simp add: get_def live_def split: option.splits)

lemma Add_live: "live now_get k minic \<Longrightarrow> Add now_get now_set k v d minic = (Some (AlreadyExists k), minic)"
  using get_None_iff [of now_get k minic] by (auto simp: Add_def split: option.splits)

lemma Add_not_live: "\<not> live now_get k minic \<Longrightarrow> Add now_get now_set k v d minic = (None, Set now_set k v d minic)"
  using get_None_iff [of now_get k minic] by (simp add: Add_def set_item_eq_Set)

text \<open>
  C2. \<^verbatim>\<open>Add\<close> inserts exactly when the key is not live, that is when the map has no entry
  for it or an expired one, which it overwrites: the cache becomes what \<^verbatim>\<open>Set\<close> would
  make it, and no error is returned. When the key is live, \<^verbatim>\<open>Add\<close> returns the "already
  exists" error and the cache is unchanged.
\<close>

theorem C2_Add:
  "(\<not> live now_get k minic \<longrightarrow>
      Add now_get now_set k v d minic = (None, Set now_set k v d minic) \<and>
      (\<exists>e. items (snd (Add now_get now_set k v d minic)) k = Some \<lparr>Object = v, Expiration = e\<rparr>) \<and>
      (\<forall>k'. k' \<noteq> k \<longrightarrow> items (snd (Add now_get now_set k v d minic)) k' = items minic k')) \<and>
   (live now_get k minic \<longrightarrow>
      Add now_get now_set k v d minic = (Some (AlreadyExists k), minic)) \<and>
   (fst (Add now_get now_set k v d minic) = None) = (\<not> live now_get k minic) \<and>
   live now_get k minic
     = (\<exists>item. items minic k = Some item \<and> (Expiration item = 0 \<or> now_get \<le>s Expiration item))"
proof -
  have absent: "\<not> live now_get k minic \<longrightarrow>
      Add now_get now_set k v d minic = (None, Set now_set k v d minic) \<and>
      (\<exists>e. items (snd (Add now_get now_set k v d minic)) k = Some \<lparr>Object = v, Expiration = e\<rparr>) \<and>
      (\<forall>k'. k' \<noteq> k \<longrightarrow> items (snd (Add now_get now_set k v d minic)) k' = items minic k')"
    by (simp add: Add_not_live Set_stores Set_items_other)
  have present: "live now_get k minic \<longrightarrow>
      Add now_get now_set k v d minic = (Some (AlreadyExists k), minic)"
    by (simp add: Add_live)
  have iff: "(fst (Add now_get now_set k v d minic) = None) = (\<not> live now_get k minic)"
    by (cases "live now_get k minic") (simp_all add: Add_live Add_not_live)
  have "live now_get k minic
     = (\<exists>item. items minic k = Some item \<and> (Expiration item = 0 \<or> now_get \<le>s Expiration item))"
    by (auto simp: live_def IsExpired_def signed.not_less split: option.splits)
  with absent present iff show ?thesis by blast
qed


theorem C2_Add_witness:
  "live 10 ''k'' (Set 3 ''k'' True 7 (NewMiniCache 0 1)) \<and>
   Add 10 10 ''k'' False 5 (Set 3 ''k'' True 7 (NewMiniCache 0 1))
     = (Some (AlreadyExists ''k''), Set 3 ''k'' True 7 (NewMiniCache 0 1)) \<and>
   \<not> live 11 ''k'' (Set 3 ''k'' True 7 (NewMiniCache 0 1)) \<and>
   Add 11 12 ''k'' False 5 (Set 3 ''k'' True 7 (NewMiniCache 0 1))
     = (None, Set 12 ''k'' False 5 (Set 3 ''k'' True 7 (NewMiniCache 0 1))) \<and>
   items (snd (Add 11 12 ''k'' False 5 (Set 3 ''k'' True 7 (NewMiniCache 0 1))
               :: error option \<times> bool Minicache)) ''k''
     = Some \<lparr>Object = False, Expiration = 17\<rparr>"
proof -
  let ?c = "Set 3 ''k'' True 7 (NewMiniCache 0 1)"
  have l10: "live 10 ''k'' ?c"
    by (simp add: live_def Set_def NewMiniCache_def IsExpired_def defaultExpiration_const_def
        word_sless_alt)
  have l11: "\<not> live 11 ''k'' ?c"
    by (simp add: live_def Set_def NewMiniCache_def IsExpired_def defaultExpiration_const_def
        word_sless_alt)
  have a: "Add 10 10 ''k'' False 5 ?c = (Some (AlreadyExists ''k''), ?c)"
    using C2_Add [of 10 "''k''" ?c 10 False 5] l10 by blast
  have b: "Add 11 12 ''k'' False 5 ?c = (None, Set 12 ''k'' False 5 ?c)"
    using C2_Add [of 11 "''k''" ?c 12 False 5] l11 by blast
  have "items (Set 12 ''k'' False 5 ?c) ''k'' = Some \<lparr>Object = False, Expiration = 17\<rparr>"
    by (simp add: Set_def defaultExpiration_const_def word_sless_alt)
  with l10 l11 a b show ?thesis by simp
qed

lemma Replace_live:
  "live now_get k minic \<Longrightarrow> Replace now_get now_set k v d minic = (None, Set now_set k v d minic)"
  using get_None_iff [of now_get k minic] by (auto simp: Replace_def set_item_eq_Set split: option.splits)

lemma Replace_not_live:
  "\<not> live now_get k minic \<Longrightarrow> Replace now_get now_set k v d minic = (Some (DoesNotExist k), minic)"
  using get_None_iff [of now_get k minic] by (simp add: Replace_def)

text \<open>
  C3. \<^verbatim>\<open>Replace\<close> updates exactly when the key is live: the entry gets the new value and
  a newly computed expiration, as \<^verbatim>\<open>Set\<close> would store them, and no error is returned.
  When the key is absent or its entry is expired, \<^verbatim>\<open>Replace\<close> returns the "does not
  exist" error and the cache is unchanged.
\<close>

theorem C3_Replace:
  "(live now_get k minic \<longrightarrow>
      Replace now_get now_set k v d minic = (None, Set now_set k v d minic) \<and>
      (\<exists>e. items (snd (Replace now_get now_set k v d minic)) k
             = Some \<lparr>Object = v, Expiration = e\<rparr>) \<and>
      (0 <s d \<longrightarrow> items (snd (Replace now_get now_set k v d minic)) k
             = Some \<lparr>Object = v, Expiration = now_set + d\<rparr>) \<and>
      (\<forall>k'. k' \<noteq> k \<longrightarrow> items (snd (Replace now_get now_set k v d minic)) k' = items minic k')) \<and>
   (\<not> live now_get k minic \<longrightarrow>
      Replace now_get now_set k v d minic = (Some (DoesNotExist k), minic)) \<and>
   (fst (Replace now_get now_set k v d minic) = None) = live now_get k minic \<and>
   (\<not> live now_get k minic)
     = (items minic k = None \<or> (\<exists>item. items minic k = Some item \<and> IsExpired now_get item))"
proof -
  have present: "live now_get k minic \<longrightarrow>
      Replace now_get now_set k v d minic = (None, Set now_set k v d minic) \<and>
      (\<exists>e. items (snd (Replace now_get now_set k v d minic)) k
             = Some \<lparr>Object = v, Expiration = e\<rparr>) \<and>
      (0 <s d \<longrightarrow> items (snd (Replace now_get now_set k v d minic)) k
             = Some \<lparr>Object = v, Expiration = now_set + d\<rparr>) \<and>
      (\<forall>k'. k' \<noteq> k \<longrightarrow> items (snd (Replace now_get now_set k v d minic)) k' = items minic k')"
    by (simp add: Replace_live Set_stores Set_items_other Set_positive)
  have absent: "\<not> live now_get k minic \<longrightarrow>
      Replace now_get now_set k v d minic = (Some (DoesNotExist k), minic)"
    by (simp add: Replace_not_live)
  have iff: "(fst (Replace now_get now_set k v d minic) = None) = live now_get k minic"
    by (cases "live now_get k minic") (simp_all add: Replace_live Replace_not_live)
  have "(\<not> live now_get k minic)
     = (items minic k = None \<or> (\<exists>item. items minic k = Some item \<and> IsExpired now_get item))"
    by (auto simp: live_def split: option.splits)
  with absent present iff show ?thesis by blast
qed

theorem C3_Replace_witness:
  "live 10 ''k'' (Set 3 ''k'' True 7 (NewMiniCache 0 1)) \<and>
   Replace 10 12 ''k'' False 5 (Set 3 ''k'' True 7 (NewMiniCache 0 1))
     = (None, Set 12 ''k'' False 5 (Set 3 ''k'' True 7 (NewMiniCache 0 1))) \<and>
   items (snd (Replace 10 12 ''k'' False 5 (Set 3 ''k'' True 7 (NewMiniCache 0 1))
               :: error option \<times> bool Minicache)) ''k''
     = Some \<lparr>Object = False, Expiration = 17\<rparr> \<and>
   \<not> live 11 ''k'' (Set 3 ''k'' True 7 (NewMiniCache 0 1)) \<and>
   Replace 11 12 ''k'' False 5 (Set 3 ''k'' True 7 (NewMiniCache 0 1))
     = (Some (DoesNotExist ''k''), Set 3 ''k'' True 7 (NewMiniCache 0 1)) \<and>
   Replace 11 12 ''j'' False 5 (Set 3 ''k'' True 7 (NewMiniCache 0 1))
     = (Some (DoesNotExist ''j''), Set 3 ''k'' True 7 (NewMiniCache 0 1))"
proof -
  let ?c = "Set 3 ''k'' True 7 (NewMiniCache 0 1)"
  have l10: "live 10 ''k'' ?c"
    by (simp add: live_def Set_def NewMiniCache_def IsExpired_def defaultExpiration_const_def
        word_sless_alt)
  have l11: "\<not> live 11 ''k'' ?c"
    by (simp add: live_def Set_def NewMiniCache_def IsExpired_def defaultExpiration_const_def
        word_sless_alt)
  have lj: "\<not> live 11 ''j'' ?c"
    by (simp add: live_def Set_def NewMiniCache_def)
  have pos: "0 <s (5 :: Duration)" by (simp add: word_sless_alt)
  have a: "Replace 10 12 ''k'' False 5 ?c = (None, Set 12 ''k'' False 5 ?c)"
    using C3_Replace [of 10 "''k''" ?c 12 False 5] l10 by blast
  have a': "items (snd (Replace 10 12 ''k'' False 5 ?c :: error option \<times> bool Minicache)) ''k''
     = Some \<lparr>Object = False, Expiration = 17\<rparr>"
    using C3_Replace [of 10 "''k''" ?c 12 False 5] l10 pos by auto
  have b: "Replace 11 12 ''k'' False 5 ?c = (Some (DoesNotExist ''k''), ?c)"
    using C3_Replace [of 11 "''k''" ?c 12 False 5] l11 by blast
  have c: "Replace 11 12 ''j'' False 5 ?c = (Some (DoesNotExist ''j''), ?c)"
    using C3_Replace [of 11 "''j''" ?c 12 False 5] lj by blast
  from l10 l11 a a' b c show ?thesis by simp
qed

section \<open>Load\<close>

lemma Load_range_absent:
  "k \<notin> fst ` set kvs \<Longrightarrow> items (Load_range clock kvs minic) k = items minic k"
  by (induction kvs arbitrary: minic) (auto split: option.splits)

lemma Load_range_present:
  "distinct (map fst kvs) \<Longrightarrow> (k, v) \<in> set kvs \<Longrightarrow>
     items (Load_range clock kvs minic) k
       = (if live (clock k) k minic then items minic k else Some v)"
proof (induction kvs arbitrary: minic)
  case Nil
  then show ?case by simp
next
  case (Cons kv kvs)
  obtain k' v' where kv: "kv = (k', v')" by (cases kv)
  show ?case
  proof (cases "k' = k")
    case True
    with Cons.prems kv have fresh: "k \<notin> fst ` set kvs" and v: "v' = v"
      by (auto simp: image_iff)
    show ?thesis
      using kv True v Load_range_absent [OF fresh]
      by (auto simp: live_def split: option.splits)
  next
    case False
    with Cons.prems kv have later: "(k, v) \<in> set kvs" and dist: "distinct (map fst kvs)"
      by auto
    show ?thesis
      using kv False Cons.IH [OF dist later]
      by (auto simp: live_def split: option.splits)
  qed
qed

text \<open>
  C1. When decoding succeeds, \<^verbatim>\<open>Load\<close> returns no error and merges the decoded map key
  by key, whatever the order of the visit. A decoded key that the cache does not hold,
  or holds with an entry that is expired when the key is visited, gets the decoded
  entry. A decoded key that the cache holds with a live entry keeps that entry: the
  decoded one is dropped, and \<^verbatim>\<open>Get\<close> on that key returns after the load what it
  returned before, at any time, so the old value at the time of the merge. Keys that
  are not in the decoded map are left as they were.
\<close>

theorem C1_Load_merge:
  assumes "dec r = Inr decoded" and "distinct (map fst decoded)"
  shows "fst (Load dec clock r minic) = None \<and>
    (\<forall>k v. (k, v) \<in> set decoded \<and> items minic k = None \<longrightarrow>
       items (snd (Load dec clock r minic)) k = Some v) \<and>
    (\<forall>k v obj. (k, v) \<in> set decoded \<and> items minic k = Some obj \<and> IsExpired (clock k) obj \<longrightarrow>
       items (snd (Load dec clock r minic)) k = Some v) \<and>
    (\<forall>k v obj. (k, v) \<in> set decoded \<and> items minic k = Some obj \<and> \<not> IsExpired (clock k) obj \<longrightarrow>
       items (snd (Load dec clock r minic)) k = Some obj \<and>
       Get (clock k) k (snd (Load dec clock r minic)) = Some (Object obj) \<and>
       (\<forall>t. Get t k (snd (Load dec clock r minic)) = Get t k minic)) \<and>
    (\<forall>k. k \<notin> fst ` set decoded \<longrightarrow> items (snd (Load dec clock r minic)) k = items minic k)"
proof -
  have load: "Load dec clock r minic = (None, Load_range clock decoded minic)"
    using assms(1) by (simp add: Load_def)
  have merged: "items (Load_range clock decoded minic) k
       = (if live (clock k) k minic then items minic k else Some v)"
    if "(k, v) \<in> set decoded" for k v
    using Load_range_present [OF assms(2) that] .
  have absent: "\<forall>k v. (k, v) \<in> set decoded \<and> items minic k = None \<longrightarrow>
       items (snd (Load dec clock r minic)) k = Some v"
    by (auto simp: load live_def dest: merged)
  have expired: "\<forall>k v obj. (k, v) \<in> set decoded \<and> items minic k = Some obj \<and> IsExpired (clock k) obj \<longrightarrow>
       items (snd (Load dec clock r minic)) k = Some v"
    by (auto simp: load live_def dest: merged)
  have kept: "\<forall>k v obj. (k, v) \<in> set decoded \<and> items minic k = Some obj \<and> \<not> IsExpired (clock k) obj \<longrightarrow>
       items (snd (Load dec clock r minic)) k = Some obj \<and>
       Get (clock k) k (snd (Load dec clock r minic)) = Some (Object obj) \<and>
       (\<forall>t. Get t k (snd (Load dec clock r minic)) = Get t k minic)"
    by (auto simp: load live_def Get_def dest: merged)
  have other: "\<forall>k. k \<notin> fst ` set decoded \<longrightarrow> items (snd (Load dec clock r minic)) k = items minic k"
    by (simp add: load Load_range_absent)
  from absent expired kept other show ?thesis by (simp add: load)
qed

theorem C1_Load_merge_witness:
  "items (snd (Load (\<lambda>r. Inr [(''a'', \<lparr>Object = False, Expiration = 0\<rparr>),
                                (''b'', \<lparr>Object = False, Expiration = 0\<rparr>),
                                (''c'', \<lparr>Object = False, Expiration = 50\<rparr>)])
                    (\<lambda>k. 5) ()
                    (Set 3 ''b'' True 1 (Set 3 ''a'' True 7 (NewMiniCache 0 1))))) ''a''
     = Some \<lparr>Object = True, Expiration = 10\<rparr> \<and>
   Get 5 ''a'' (snd (Load (\<lambda>r. Inr [(''a'', \<lparr>Object = False, Expiration = 0\<rparr>),
                                (''b'', \<lparr>Object = False, Expiration = 0\<rparr>),
                                (''c'', \<lparr>Object = False, Expiration = 50\<rparr>)])
                    (\<lambda>k. 5) ()
                    (Set 3 ''b'' True 1 (Set 3 ''a'' True 7 (NewMiniCache 0 1))))) = Some True \<and>
   items (snd (Load (\<lambda>r. Inr [(''a'', \<lparr>Object = False, Expiration = 0\<rparr>),
                                (''b'', \<lparr>Object = False, Expiration = 0\<rparr>),
                                (''c'', \<lparr>Object = False, Expiration = 50\<rparr>)])
                    (\<lambda>k. 5) ()
                    (Set 3 ''b'' True 1 (Set 3 ''a'' True 7 (NewMiniCache 0 1))))) ''b''
     = Some \<lparr>Object = False, Expiration = 0\<rparr> \<and>
   items (snd (Load (\<lambda>r. Inr [(''a'', \<lparr>Object = False, Expiration = 0\<rparr>),
                                (''b'', \<lparr>Object = False, Expiration = 0\<rparr>),
                                (''c'', \<lparr>Object = False, Expiration = 50\<rparr>)])
                    (\<lambda>k. 5) ()
                    (Set 3 ''b'' True 1 (Set 3 ''a'' True 7 (NewMiniCache 0 1))))) ''c''
     = Some \<lparr>Object = False, Expiration = 50\<rparr>"
proof -
  let ?decoded = "[(''a'', \<lparr>Object = False, Expiration = 0\<rparr>),
                   (''b'', \<lparr>Object = False, Expiration = 0\<rparr>),
                   (''c'', \<lparr>Object = False, Expiration = 50\<rparr>)]"
  let ?dec = "\<lambda>r :: unit. (Inr ?decoded :: string + (string \<times> bool Item) list)"
  let ?c = "Set 3 ''b'' True 1 (Set 3 ''a'' True 7 (NewMiniCache 0 1))"
  let ?l = "snd (Load ?dec (\<lambda>k. 5) () ?c)"
  have dec: "?dec () = Inr ?decoded" by simp
  have dist: "distinct (map fst ?decoded)" by simp
  note merge = C1_Load_merge [of ?dec "()" ?decoded "\<lambda>k. 5" ?c, OF dec dist]
  have a: "items ?c ''a'' = Some \<lparr>Object = True, Expiration = 10\<rparr>"
    by (simp add: Set_def NewMiniCache_def defaultExpiration_const_def word_sless_alt)
  have b: "items ?c ''b'' = Some \<lparr>Object = True, Expiration = 4\<rparr>"
    by (simp add: Set_def NewMiniCache_def defaultExpiration_const_def word_sless_alt)
  have c: "items ?c ''c'' = None"
    by (simp add: Set_def NewMiniCache_def defaultExpiration_const_def word_sless_alt)
  have live_a: "\<not> IsExpired 5 \<lparr>Object = True, Expiration = 10\<rparr>"
    by (simp add: IsExpired_def word_sless_alt)
  have dead_b: "IsExpired 5 \<lparr>Object = True, Expiration = 4\<rparr>"
    by (simp add: IsExpired_def word_sless_alt)
  have "items ?l ''a'' = Some \<lparr>Object = True, Expiration = 10\<rparr> \<and> Get 5 ''a'' ?l = Some True"
    using merge [THEN conjunct2, THEN conjunct2, THEN conjunct2, THEN conjunct1, rule_format,
        of "''a''" "\<lparr>Object = False, Expiration = 0\<rparr>" "\<lparr>Object = True, Expiration = 10\<rparr>"]
      a live_a by (simp add: Get_def)
  moreover have "items ?l ''b'' = Some \<lparr>Object = False, Expiration = 0\<rparr>"
    using merge [THEN conjunct2, THEN conjunct2, THEN conjunct1, rule_format,
        of "''b''" "\<lparr>Object = False, Expiration = 0\<rparr>" "\<lparr>Object = True, Expiration = 4\<rparr>"]
      b dead_b by simp
  moreover have "items ?l ''c'' = Some \<lparr>Object = False, Expiration = 50\<rparr>"
    using merge [THEN conjunct2, THEN conjunct1, rule_format,
        of "''c''" "\<lparr>Object = False, Expiration = 50\<rparr>"] c by simp
  ultimately show ?thesis by simp
qed

text \<open>
  C7. When decoding the stream fails, \<^verbatim>\<open>Load\<close> returns the decoder's error and the cache
  is unchanged: nothing of the stream is merged.
\<close>

theorem C7_Load_decode_error:
  "dec r = Inl err \<Longrightarrow> Load dec clock r minic = (Some (DecodeError err), minic)"
  by (simp add: Load_def)

theorem C7_Load_decode_error_witness:
  "Load (\<lambda>r. if r = ''gob'' then Inr [(''k'', \<lparr>Object = False, Expiration = 0\<rparr>)]
              else Inl ''unexpected EOF'')
        (\<lambda>k. 10) ''go'' (Set 3 ''k'' True 7 (NewMiniCache 0 1))
     = (Some (DecodeError ''unexpected EOF''), Set 3 ''k'' True 7 (NewMiniCache 0 1))"
proof -
  let ?dec = "\<lambda>r. if r = ''gob'' then Inr [(''k'', \<lparr>Object = False, Expiration = 0\<rparr>)]
              else Inl ''unexpected EOF''"
  have fails: "?dec ''go'' = Inl ''unexpected EOF''" by simp
  show ?thesis
    using C7_Load_decode_error [of ?dec "''go''" "''unexpected EOF''" "\<lambda>k. 10"
        "Set 3 ''k'' True 7 (NewMiniCache 0 1)", OF fails] .
qed

section \<open>The sweep\<close>

lemma DeleteExpired_range_fields:
  "defaultExpiration (DeleteExpired_range now ks minic) = defaultExpiration minic \<and>
   gcInterval (DeleteExpired_range now ks minic) = gcInterval minic"
  by (induction ks arbitrary: minic) (auto simp: delete_def split: option.splits)

lemma DeleteExpired_range_items:
  "items (DeleteExpired_range now ks minic) k
     = (if k \<in> set ks
        then (case items minic k of
                None \<Rightarrow> None
              | Some v \<Rightarrow> if 0 <s Expiration v \<and> Expiration v <s now then None else Some v)
        else items minic k)"
  by (induction ks arbitrary: minic) (auto simp: delete_def split: option.splits)

lemma DeleteExpired_items:
  assumes "set ks = dom (items minic)"
  shows "items (DeleteExpired now ks minic) k
       = (case items minic k of
            None \<Rightarrow> None
          | Some v \<Rightarrow> if 0 <s Expiration v \<and> Expiration v <s now then None else Some v)"
proof -
  have "k \<notin> set ks \<Longrightarrow> items minic k = None"
    using assms by auto
  then show ?thesis
    by (auto simp: DeleteExpired_def DeleteExpired_range_items)
qed

text \<open>
  C6. The sweep does not remove every entry whose expiration is concrete and strictly
  before the time it reads. An entry with a negative expiration, at a time that is not
  negative, has an expiration that is not the sentinel and lies strictly before that
  time: \<^verbatim>\<open>IsExpired\<close> reports it expired and \<^verbatim>\<open>Get\<close> does not find it. The sweep at that
  time, whatever the order of its visit, leaves the entry in the map, since its test
  asks for an expiration above zero.
\<close>

theorem C6_DeleteExpired_keeps_negative:
  assumes "items minic k = Some item" and "Expiration item <s 0" and "0 \<le>s now"
    and "set ks = dom (items minic)"
  shows "Expiration item \<noteq> 0 \<and> Expiration item <s now \<and>
     IsExpired now item \<and> Get now k minic = None \<and>
     items (DeleteExpired now ks minic) k = Some item"
proof -
  have nonzero: "Expiration item \<noteq> 0"
    using assms(2) by auto
  have before: "Expiration item <s now"
    using assms(2,3) by (rule signed.less_le_trans)
  have expired: "IsExpired now item"
    using nonzero before by (simp add: IsExpired_def)
  have hidden: "Get now k minic = None"
    using assms(1) expired by (simp add: Get_def)
  have "\<not> 0 <s Expiration item"
    using assms(2) by (simp add: negative_ttl)
  then have kept: "items (DeleteExpired now ks minic) k = Some item"
    using assms(1) by (simp add: DeleteExpired_items [OF assms(4)])
  from nonzero before expired hidden kept show ?thesis by simp
qed

theorem C6_DeleteExpired_keeps_negative_witness:
  "IsExpired 100 \<lparr>Object = True, Expiration = - 5\<rparr> \<and>
   Get 100 ''k'' (snd (Load (\<lambda>r. Inr [(''k'', \<lparr>Object = True, Expiration = - 5\<rparr>)])
                            (\<lambda>k. 100) () (NewMiniCache 0 1))) = None \<and>
   items (DeleteExpired 100 [''k'']
            (snd (Load (\<lambda>r. Inr [(''k'', \<lparr>Object = True, Expiration = - 5\<rparr>)])
                       (\<lambda>k. 100) () (NewMiniCache 0 1)))) ''k''
     = Some \<lparr>Object = True, Expiration = - 5\<rparr>"
proof -
  let ?item = "\<lparr>Object = True, Expiration = - 5\<rparr>"
  let ?c = "snd (Load (\<lambda>r. Inr [(''k'', ?item)]) (\<lambda>k. 100) () (NewMiniCache 0 1))"
  have its: "items ?c = [''k'' \<mapsto> ?item]"
    by (simp add: Load_def NewMiniCache_def)
  have held: "items ?c ''k'' = Some ?item"
    by (simp add: its)
  have neg: "Expiration ?item <s 0"
    by (simp add: word_sless_alt)
  have now: "0 \<le>s (100 :: int64)"
    by (simp add: word_sle_eq)
  have keys: "set [''k''] = dom (items ?c)"
    by (simp add: its)
  show ?thesis
    using C6_DeleteExpired_keeps_negative [OF held neg now keys] by simp
qed

section \<open>The reaper and the interval\<close>




section \<open>Locks\<close>

text \<open>
  C9. Every path of \<^verbatim>\<open>Get\<close>, \<^verbatim>\<open>Set\<close>, \<^verbatim>\<open>Add\<close>, \<^verbatim>\<open>Replace\<close>, \<^verbatim>\<open>Delete\<close>, \<^verbatim>\<open>Count\<close>,
  \<^verbatim>\<open>Save\<close>, \<^verbatim>\<open>Load\<close> and \<^verbatim>\<open>DeleteExpired\<close> writes \<^verbatim>\<open>items\<close> only while it holds the
  mutex exclusively. \<^verbatim>\<open>Flush\<close> does not: it writes under the shared lock. So a goroutine
  in \<^verbatim>\<open>Flush\<close> and one in \<^verbatim>\<open>Get\<close>, or two in \<^verbatim>\<open>Flush\<close>, can both take the lock, and
  then the write of the first races with the access of the second; with \<^verbatim>\<open>Set\<close> in the
  place of \<^verbatim>\<open>Flush\<close> the second goroutine has to wait.
\<close>

theorem C9_Flush_lock:
  "list_all (writes_exclusive Unheld)
     (concat (map paths [M_Get, M_Set, M_Add, M_Replace, M_Delete, M_Count, M_Save, M_Load,
        M_DeleteExpired])) \<and>
   \<not> list_all (writes_exclusive Unheld) (paths M_Flush) \<and>
   run [0, 1] (unlocked, [hd (paths M_Flush), hd (paths M_Get)])
     = Some (\<lparr>writer = False, readers = 2\<rparr>, [[WriteItems, RUnlock], [ReadItems, RUnlock]]) \<and>
   race [[WriteItems, RUnlock], [ReadItems, RUnlock]] \<and>
   run [0, 1] (unlocked, [hd (paths M_Flush), hd (paths M_Flush)])
     = Some (\<lparr>writer = False, readers = 2\<rparr>, [[WriteItems, RUnlock], [WriteItems, RUnlock]]) \<and>
   race [[WriteItems, RUnlock], [WriteItems, RUnlock]] \<and>
   run [0, 1] (unlocked, [hd (paths M_Set), hd (paths M_Get)]) = None"
proof -
  have "race [[WriteItems, RUnlock], [ReadItems, RUnlock]]"
    unfolding race_def
    by (rule exI [of _ 0], simp, rule exI [of _ 1], simp add: next_is_def)
  moreover have "race [[WriteItems, RUnlock], [WriteItems, RUnlock]]"
    unfolding race_def
    by (rule exI [of _ 0], simp, rule exI [of _ 1], simp add: next_is_def)
  ultimately show ?thesis
    by (simp add: unlocked_def)
qed

end
